theory Spec2Isabelle
  imports Complex_Main
begin

section \<open>rbtempo: tempo, pitch and speed controls for a media player\<close>

text \<open>
  The plugin (\<^verbatim>\<open>rbtempo.py\<close>) is glue between a GUI toolkit, a media framework and
  the host player. The model keeps the plugin's own fields as a record that every
  method takes and returns, and writes each call that leaves the plugin (element
  factory, player, logger, toolbar, property writes on the filter) into a trace, in
  the order the code makes them. What the toolkit and the host answer is not decided
  by this code, so it is a parameter: the record \<open>host\<close>.

  Python floats are read as real numbers: rounding is not part of the model. The
  program computes the three filter properties in IEEE double arithmetic, so the values
  it stores can differ from the real-number values of the formulas by rounding; nothing
  below states that the two agree.
\<close>

subsection \<open>Widget tree\<close>

text \<open>
  What \<^verbatim>\<open>find_widget_by_name\<close> asks of an object: whether it is a
  \<^verbatim>\<open>Gtk.Widget\<close>, whether it is a \<^verbatim>\<open>Gtk.Buildable\<close> and which name
  \<^verbatim>\<open>Gtk.Buildable.get_name\<close> gives (\<open>None\<close> is Python's \<^verbatim>\<open>None\<close>),
  whether it is a \<^verbatim>\<open>Gtk.Container\<close> and what \<^verbatim>\<open>get_children()\<close> lists.
  \<open>ident\<close> stands for the identity of the object.
\<close>

datatype node = Node (ident: nat) (is_widget: bool) (is_buildable: bool)
  (buildable_name: "string option") (is_container: bool) (get_children: "node list")

fun find_widget_by_name :: "node \<Rightarrow> string \<Rightarrow> node option"
  and find_in_children :: "node list \<Rightarrow> string \<Rightarrow> node option" where
  "find_widget_by_name (Node i w b n c kids) name =
     (if \<not> w then None
      else if b \<and> n = Some name then Some (Node i w b n c kids)
      else if c then find_in_children kids name
      else None)"
| "find_in_children [] name = None"
| "find_in_children (child # rest) name =
     (case find_widget_by_name child name of
        Some ans \<Rightarrow> Some ans
      | None \<Rightarrow> find_in_children rest name)"

text \<open>
  The specification's reading of the search: list the tree depth first, a node before
  its children and the children in order, and take the first node bearing the name.
  Only widgets are listed, and only the children of containers.
\<close>

fun preorder :: "node \<Rightarrow> node list"
  and preorder_all :: "node list \<Rightarrow> node list" where
  "preorder (Node i w b n c kids) =
     (if \<not> w then []
      else Node i w b n c kids # (if c then preorder_all kids else []))"
| "preorder_all [] = []"
| "preorder_all (child # rest) = preorder child @ preorder_all rest"

definition bears_name :: "string \<Rightarrow> node \<Rightarrow> bool" where
  "bears_name name w = (is_buildable w \<and> buildable_name w = Some name)"

subsection \<open>Plugin state, host and trace\<close>

text \<open>The three properties of the pitch element that the plugin writes.\<close>

record element =
  tempo :: real
  pitch :: real
  rate :: real

text \<open>A \<^verbatim>\<open>Gtk.Adjustment\<close> as \<^verbatim>\<open>create_adj\<close> constructs it.\<close>

record adjustment =
  adj_value :: real
  lower :: real
  upper :: real
  step_increment :: real
  page_increment :: real

datatype exn = Exception string

fun str :: "exn \<Rightarrow> string" where
  "str (Exception m) = m"

datatype filter_prop = Tempo | Pitch | Rate

datatype toolitem = ToolItem

datatype event =
    GstInit
  | Make
  | AddFilter element
  | RemoveFilter element
  | Warning string
  | Handler
  | SetProp filter_prop real
  | ToolbarInsert toolitem nat
  | ToolbarRemove toolitem

text \<open>
  \<open>Make\<close> is a call of \<^verbatim>\<open>Gst.ElementFactory.make("pitch", None)\<close>,
  \<open>AddFilter\<close> and \<open>RemoveFilter\<close> are the player's methods with their argument,
  \<open>Handler\<close> marks an entry of \<^verbatim>\<open>property_changed\<close>, \<open>SetProp\<close> is one
  assignment to a property of the element.
\<close>

record plugin =
  pitch_element :: "element option"
  toolbox :: "toolitem option"
  tempo_adj :: adjustment
  pitch_adj :: adjustment
  speed_adj :: adjustment
  trace :: "event list"

text \<open>
  Whether \<^verbatim>\<open>set_value\<close> emits \<^verbatim>\<open>value-changed\<close> when the value it stores is
  the one already there is the toolkit's choice: GTK emits only on a change
  (\<open>OnChange\<close>), the comment in \<^verbatim>\<open>reset\<close> reads as if every call did
  (\<open>EveryCall\<close>). Both are kept.
\<close>

datatype emission = EveryCall | OnChange

record host =
  pitch_factory :: "element option"
  emission :: emission
  window :: "exn + node"
  insert_fault :: "exn option"
  toolbox_parent :: "exn + bool"
  remove_fault :: "exn option"

text \<open>
  \<open>pitch_factory\<close> is what the element factory returns (\<open>None\<close> when the framework
  has no pitch element); \<open>window\<close> is what reading the shell's window gives;
  \<open>insert_fault\<close> and \<open>remove_fault\<close> say whether the toolbar's
  \<^verbatim>\<open>insert\<close> and \<^verbatim>\<open>remove\<close> raise; \<open>toolbox_parent\<close> is the truth value of
  \<^verbatim>\<open>self.toolbox.get_parent()\<close>, or the exception it raises. Calls of the
  player and the construction of widgets are taken to succeed: the code does not
  guard them.
\<close>

definition log_events :: "event list \<Rightarrow> plugin \<Rightarrow> plugin" where
  "log_events evs s = s\<lparr>trace := trace s @ evs\<rparr>"

definition warning :: "string \<Rightarrow> plugin \<Rightarrow> plugin" where
  "warning m s = log_events [Warning m] s"

subsection \<open>Filter lifecycle\<close>

definition msg_no_pitch :: string where
  "msg_no_pitch =
     ''RBTempoPlugin: Could not create GStreamer pitch element. Is gst-plugins-good installed?''"

definition add_filter :: "host \<Rightarrow> plugin \<Rightarrow> plugin" where
  "add_filter h s =
     (if pitch_element s = None then
        (case pitch_factory h of
           Some e \<Rightarrow> log_events [Make, AddFilter e] (s\<lparr>pitch_element := Some e\<rparr>)
         | None \<Rightarrow> log_events [Make, Warning msg_no_pitch] (s\<lparr>pitch_element := None\<rparr>))
      else s)"

definition remove_filter :: "plugin \<Rightarrow> plugin" where
  "remove_filter s =
     (case pitch_element s of
        Some e \<Rightarrow> (log_events [RemoveFilter e] s)\<lparr>pitch_element := None\<rparr>
      | None \<Rightarrow> s)"

subsection \<open>Adjustments and the change handler\<close>

text \<open>
  The handler does not use its arguments (the adjustment that changed and the user
  data): it reads all three adjustments on every run. The three formulas of lines
  62 to 64 are written here over the reals, where the program rounds to doubles.
\<close>

definition property_changed :: "host \<Rightarrow> plugin \<Rightarrow> plugin" where
  "property_changed h s =
     (let s1 = add_filter h (log_events [Handler] s) in
      case pitch_element s1 of
        None \<Rightarrow> s1
      | Some e \<Rightarrow>
          (let t = adj_value (tempo_adj s1) * 0.01 + 1.0;
               p = 2.0 powr (adj_value (pitch_adj s1) / 12.0);
               r = adj_value (speed_adj s1) * 0.01 + 1.0
           in log_events [SetProp Tempo t, SetProp Pitch p, SetProp Rate r]
                (s1\<lparr>pitch_element := Some (e\<lparr>tempo := t, pitch := p, rate := r\<rparr>)\<rparr>)))"

definition create_adj :: "real \<Rightarrow> real \<Rightarrow> real \<Rightarrow> real \<Rightarrow> real \<Rightarrow> adjustment" where
  "create_adj v lo up step page =
     \<lparr>adj_value = v, lower = lo, upper = up, step_increment = step, page_increment = page\<rparr>"

text \<open>
  \<^verbatim>\<open>Gtk.Adjustment.set_value\<close>: the value is clamped to the bounds (the page size is
  left at its default 0) and stored; \<open>emits\<close> says whether the signal follows.
\<close>

definition set_value :: "adjustment \<Rightarrow> real \<Rightarrow> adjustment" where
  "set_value a v = a\<lparr>adj_value := max (lower a) (min v (upper a))\<rparr>"

fun emits :: "emission \<Rightarrow> real \<Rightarrow> real \<Rightarrow> bool" where
  "emits EveryCall old new = True"
| "emits OnChange old new = (old \<noteq> new)"

text \<open>
  \<^verbatim>\<open>create_adj\<close> connects \<^verbatim>\<open>property_changed\<close> to each adjustment, so setting
  one runs the handler when the signal is emitted, with the new value already stored.
\<close>

definition tempo_set_value :: "host \<Rightarrow> real \<Rightarrow> plugin \<Rightarrow> plugin" where
  "tempo_set_value h v s =
     (let a = set_value (tempo_adj s) v; s1 = s\<lparr>tempo_adj := a\<rparr> in
      if emits (emission h) (adj_value (tempo_adj s)) (adj_value a)
      then property_changed h s1 else s1)"

definition pitch_set_value :: "host \<Rightarrow> real \<Rightarrow> plugin \<Rightarrow> plugin" where
  "pitch_set_value h v s =
     (let a = set_value (pitch_adj s) v; s1 = s\<lparr>pitch_adj := a\<rparr> in
      if emits (emission h) (adj_value (pitch_adj s)) (adj_value a)
      then property_changed h s1 else s1)"

definition speed_set_value :: "host \<Rightarrow> real \<Rightarrow> plugin \<Rightarrow> plugin" where
  "speed_set_value h v s =
     (let a = set_value (speed_adj s) v; s1 = s\<lparr>speed_adj := a\<rparr> in
      if emits (emission h) (adj_value (speed_adj s)) (adj_value a)
      then property_changed h s1 else s1)"

definition reset :: "host \<Rightarrow> plugin \<Rightarrow> plugin" where
  "reset h s = speed_set_value h 0 (pitch_set_value h 0 (tempo_set_value h 0 s))"

text \<open>Of \<^verbatim>\<open>create_toolbox\<close> the adjustments and the returned item are kept.\<close>

definition create_toolbox :: "plugin \<Rightarrow> plugin \<times> toolitem" where
  "create_toolbox s =
     (s\<lparr>tempo_adj := create_adj 0 (-50) 200 5 10,
        pitch_adj := create_adj 0 (-12) 12 1 3,
        speed_adj := create_adj 0 (-50) 200 5 10\<rparr>, ToolItem)"

subsection \<open>Activation and deactivation\<close>

definition get_toolbar :: "host \<Rightarrow> exn + node option" where
  "get_toolbar h =
     (case window h of
        Inl e \<Rightarrow> Inl e
      | Inr win \<Rightarrow> Inr (find_widget_by_name win ''main-toolbar''))"

text \<open>
  A \<^verbatim>\<open>try\<close> block is a function that returns the state it reached and the exception
  it stopped with, if any; assignments made before the exception stay.
\<close>

definition activate_ui :: "host \<Rightarrow> plugin \<Rightarrow> plugin \<times> exn option" where
  "activate_ui h s =
     (case get_toolbar h of
        Inl e \<Rightarrow> (s, Some e)
      | Inr None \<Rightarrow>
          (warning ''RBTempoPlugin: Could not find Rhythmbox main toolbar.'' s, None)
      | Inr (Some toolbar) \<Rightarrow>
          (case create_toolbox s of
             (s1, item) \<Rightarrow>
               (let s2 = s1\<lparr>toolbox := Some item\<rparr> in
                case insert_fault h of
                  Some e \<Rightarrow> (s2, Some e)
                | None \<Rightarrow> (log_events [ToolbarInsert item 2] s2, None))))"

definition do_activate :: "host \<Rightarrow> plugin \<Rightarrow> plugin \<times> exn option" where
  "do_activate h s =
     (let s1 = add_filter h ((log_events [GstInit] s)\<lparr>pitch_element := None, toolbox := None\<rparr>) in
      case activate_ui h s1 of
        (s2, None) \<Rightarrow> (s2, None)
      | (s2, Some e) \<Rightarrow>
          (warning (''RBTempoPlugin: Failed to activate UI: '' @ str e) s2, None))"

definition deactivate_ui :: "host \<Rightarrow> toolitem \<Rightarrow> plugin \<Rightarrow> plugin \<times> exn option" where
  "deactivate_ui h item s =
     (case get_toolbar h of
        Inl e \<Rightarrow> (s, Some e)
      | Inr None \<Rightarrow>
          (warning ''RBTempoPlugin: Could not find main toolbar during deactivation.'' s, None)
      | Inr (Some toolbar) \<Rightarrow>
          (case toolbox_parent h of
             Inl e \<Rightarrow> (s, Some e)
           | Inr False \<Rightarrow> (s, None)
           | Inr True \<Rightarrow>
               (case remove_fault h of
                  Some e \<Rightarrow> (s, Some e)
                | None \<Rightarrow> (log_events [ToolbarRemove item] s, None))))"

definition do_deactivate :: "host \<Rightarrow> plugin \<Rightarrow> plugin \<times> exn option" where
  "do_deactivate h s =
     (let s1 = remove_filter s;
          s2 = (case toolbox s1 of
                  None \<Rightarrow> s1
                | Some item \<Rightarrow>
                    (case deactivate_ui h item s1 of
                       (s', None) \<Rightarrow> s'
                     | (s', Some e) \<Rightarrow>
                         warning (''RBTempoPlugin: Failed to deactivate UI: '' @ str e) s'))
      in (s2\<lparr>toolbox := None, pitch_element := None\<rparr>, None))"

subsection \<open>Derived notions used in the statements\<close>

text \<open>The properties that the handler's three formulas give for the current adjustments.\<close>

definition derived :: "plugin \<Rightarrow> element" where
  "derived s =
     \<lparr>tempo = adj_value (tempo_adj s) * 0.01 + 1.0,
      pitch = 2.0 powr (adj_value (pitch_adj s) / 12.0),
      rate = adj_value (speed_adj s) * 0.01 + 1.0\<rparr>"

text \<open>
  A filter that is present carries the properties derived from the adjustments. The
  handler establishes this whenever it runs with a filter, and no other code of the
  plugin writes the properties.
\<close>

definition in_sync :: "plugin \<Rightarrow> bool" where
  "in_sync s = (case pitch_element s of None \<Rightarrow> True | Some e \<Rightarrow> e = derived s)"

text \<open>All three adjustments of \<^verbatim>\<open>create_toolbox\<close> have 0 between their bounds.\<close>

definition zero_in_bounds :: "adjustment \<Rightarrow> bool" where
  "zero_in_bounds a = (lower a \<le> 0 \<and> 0 \<le> upper a)"

text \<open>
  The trace of one run of the handler with a filter present, when the tempo, pitch and
  speed adjustments hold \<open>t\<close>, \<open>p\<close> and \<open>r\<close>.
\<close>

definition writes :: "real \<Rightarrow> real \<Rightarrow> real \<Rightarrow> event list" where
  "writes t p r =
     [SetProp Tempo (t * 0.01 + 1.0), SetProp Pitch (2.0 powr (p / 12.0)),
      SetProp Rate (r * 0.01 + 1.0)]"

definition handler_run :: "real \<Rightarrow> real \<Rightarrow> real \<Rightarrow> event list" where
  "handler_run t p r = Handler # writes t p r"

text \<open>
  At least one of the three \<^verbatim>\<open>set_value(0)\<close> calls of \<^verbatim>\<open>reset\<close> emits the
  signal, so that the handler runs at least once. The bounds enclose 0, so 0 is the
  value each call stores.
\<close>

definition reset_emits :: "host \<Rightarrow> plugin \<Rightarrow> bool" where
  "reset_emits h s =
     (emits (emission h) (adj_value (tempo_adj s)) 0 \<or>
      emits (emission h) (adj_value (pitch_adj s)) 0 \<or>
      emits (emission h) (adj_value (speed_adj s)) 0)"

text \<open>An event that is not a property write of a value other than 1.\<close>

fun neutral_write :: "event \<Rightarrow> bool" where
  "neutral_write (SetProp _ v) = (v = 1)"
| "neutral_write _ = True"

subsection \<open>Concrete states and hosts\<close>

definition neutral :: element where
  "neutral = \<lparr>tempo = 1, pitch = 1, rate = 1\<rparr>"

text \<open>
  A plugin whose toolbox has been built, with the three adjustments at \<open>t\<close>, \<open>p\<close>,
  \<open>r\<close>, the filter handle \<open>f\<close> and an empty trace.
\<close>

definition built :: "real \<Rightarrow> real \<Rightarrow> real \<Rightarrow> element option \<Rightarrow> plugin" where
  "built t p r f =
     \<lparr>pitch_element = f, toolbox = Some ToolItem,
      tempo_adj = create_adj t (-50) 200 5 10,
      pitch_adj = create_adj p (-12) 12 1 3,
      speed_adj = create_adj r (-50) 200 5 10,
      trace = []\<rparr>"

text \<open>
  A window in which the first object bearing the toolbar's name is not a widget, the
  next is not buildable, the third (4) is the first match and lies deeper than a later
  match (5).
\<close>

definition sample_window :: node where
  "sample_window =
     Node 0 True True (Some ''window'') True
       [Node 1 False True (Some ''main-toolbar'') True [],
        Node 2 True True (Some ''box'') True
          [Node 3 True False (Some ''main-toolbar'') False [],
           Node 4 True True (Some ''main-toolbar'') True []],
        Node 5 True True (Some ''main-toolbar'') True []]"

definition bare_window :: node where
  "bare_window = Node 0 True True (Some ''window'') True []"

definition host_of :: "element option \<Rightarrow> emission \<Rightarrow> node \<Rightarrow> host" where
  "host_of f r w =
     \<lparr>pitch_factory = f, emission = r, window = Inr w,
      insert_fault = None, toolbox_parent = Inr True, remove_fault = None\<rparr>"

section \<open>The filter handle\<close>

lemma pitch_element_log_events [simp]: "pitch_element (log_events evs s) = pitch_element s"
  by (simp add: log_events_def)

lemma trace_log_events [simp]: "trace (log_events evs s) = trace s @ evs"
  by (simp add: log_events_def)

lemma add_filter_present: "pitch_element s = Some e \<Longrightarrow> add_filter h s = s"
  by (simp add: add_filter_def)

lemma add_filter_unavailable:
  "pitch_element s = None \<Longrightarrow> pitch_factory h = None \<Longrightarrow>
   add_filter h s = s\<lparr>trace := trace s @ [Make, Warning msg_no_pitch]\<rparr>"
  by (simp add: add_filter_def log_events_def)

lemma add_filter_created:
  "pitch_element s = None \<Longrightarrow> pitch_factory h = Some e \<Longrightarrow>
   add_filter h s = s\<lparr>pitch_element := Some e, trace := trace s @ [Make, AddFilter e]\<rparr>"
  by (simp add: add_filter_def log_events_def)

text \<open>
  Once an element has been created, a second call in a row changes nothing. After a
  failed creation the second call is not a no-op: see \<open>property_changed_unavailable\<close>.
\<close>

lemma add_filter_twice:
  "pitch_factory h \<noteq> None \<Longrightarrow> add_filter h (add_filter h s) = add_filter h s"
  by (auto simp add: add_filter_def)

text \<open>
  C6. Whenever the filter element is present (the handle is not \<open>None\<close>),
  \<^verbatim>\<open>add_filter\<close> is a no-op: the state it returns is the state it was given, so
  the handle is unchanged and the trace has no new \<open>Make\<close> (no element created) and
  no new \<open>AddFilter\<close> (no second insertion into the pipeline).
\<close>

theorem add_filter_noop:
  "pitch_element s \<noteq> None \<Longrightarrow>
   add_filter h s = s \<and> pitch_element (add_filter h s) = pitch_element s \<and>
   trace (add_filter h s) = trace s"
  by (auto simp add: add_filter_def)

theorem add_filter_noop_witness:
  "pitch_element (built 0 0 0 (Some neutral)) \<noteq> None \<and>
   add_filter (host_of (Some neutral) OnChange bare_window) (built 0 0 0 (Some neutral)) =
     built 0 0 0 (Some neutral)"
  using add_filter_noop
    [of "built 0 0 0 (Some neutral)" "host_of (Some neutral) OnChange bare_window"]
  by (simp add: built_def)

text \<open>
  C7. With no filter attached (the handle is \<open>None\<close>) \<^verbatim>\<open>remove_filter\<close> returns
  the state unchanged, and it has no exception to raise; with the element \<open>e\<close>
  attached it calls the player's \<^verbatim>\<open>remove_filter\<close> with \<open>e\<close> and sets the handle
  to \<open>None\<close>, changing nothing else.
\<close>

theorem remove_filter_cases:
  "(pitch_element s = None \<longrightarrow> remove_filter s = s) \<and>
   (pitch_element s = Some e \<longrightarrow>
      remove_filter s = s\<lparr>pitch_element := None, trace := trace s @ [RemoveFilter e]\<rparr>)"
  by (simp add: remove_filter_def log_events_def)

theorem remove_filter_cases_witness:
  "remove_filter (built 0 0 0 None) = built 0 0 0 None \<and>
   remove_filter (built 0 0 0 (Some neutral)) =
     (built 0 0 0 None)\<lparr>trace := [RemoveFilter neutral]\<rparr>"
  using remove_filter_cases [of "built 0 0 0 None" neutral]
    remove_filter_cases [of "built 0 0 0 (Some neutral)" neutral]
  by (simp add: built_def)

section \<open>The change handler\<close>

lemma property_changed_present:
  "pitch_element s = Some e \<Longrightarrow>
   property_changed h s =
     s\<lparr>pitch_element := Some (derived s),
       trace := trace s @ handler_run (adj_value (tempo_adj s)) (adj_value (pitch_adj s))
                  (adj_value (speed_adj s))\<rparr>"
  by (cases e)
    (simp add: property_changed_def add_filter_def log_events_def Let_def derived_def
      handler_run_def writes_def)

lemma property_changed_unavailable:
  "pitch_element s = None \<Longrightarrow> pitch_factory h = None \<Longrightarrow>
   property_changed h s = s\<lparr>trace := trace s @ [Handler, Make, Warning msg_no_pitch]\<rparr>"
  by (simp add: property_changed_def add_filter_def log_events_def)

lemma property_changed_created:
  "pitch_element s = None \<Longrightarrow> pitch_factory h = Some e \<Longrightarrow>
   property_changed h s =
     s\<lparr>pitch_element := Some (derived s),
       trace := trace s @ [Handler, Make, AddFilter e]
                  @ writes (adj_value (tempo_adj s)) (adj_value (pitch_adj s))
                      (adj_value (speed_adj s))\<rparr>"
  by (cases e)
    (simp add: property_changed_def add_filter_def log_events_def Let_def derived_def writes_def)

lemma in_sync_property_changed: "in_sync (property_changed h s)"
proof (cases "pitch_element s")
  case (Some e)
  then show ?thesis
    by (simp add: property_changed_present in_sync_def derived_def)
next
  case None
  then show ?thesis
    by (cases "pitch_factory h")
      (simp_all add: property_changed_unavailable property_changed_created in_sync_def
        derived_def)
qed

lemma concat_replicate_commute:
  "concat (replicate n xs) @ xs = xs @ concat (replicate n xs)"
  by (induction n) simp_all

lemma runs_unavailable:
  "pitch_element s = None \<Longrightarrow> pitch_factory h = None \<Longrightarrow>
   pitch_element ((property_changed h ^^ n) s) = None \<and>
   trace ((property_changed h ^^ n) s) =
     trace s @ concat (replicate n [Handler, Make, Warning msg_no_pitch])"
  by (induction n) (simp_all add: property_changed_unavailable concat_replicate_commute)

text \<open>
  C5. When the creation of the filter element fails (the handle is empty and the
  framework supplies no pitch element), \<^verbatim>\<open>add_filter\<close> returns normally with the
  handle still \<open>None\<close>, and all it has done is the factory call and one warning;
  nothing is inserted into the pipeline. Each of the \<open>n\<close> runs of the handler that
  follow, for every \<open>n\<close>, leaves the handle \<open>None\<close> and adds no property write
  to the trace.
\<close>

theorem add_filter_creation_fails:
  assumes "pitch_element s = None" and "pitch_factory h = None"
  shows "add_filter h s = s\<lparr>trace := trace s @ [Make, Warning msg_no_pitch]\<rparr> \<and>
         pitch_element ((property_changed h ^^ n) (add_filter h s)) = None \<and>
         trace ((property_changed h ^^ n) (add_filter h s)) =
           trace s @ [Make, Warning msg_no_pitch]
             @ concat (replicate n [Handler, Make, Warning msg_no_pitch])"
proof -
  have a: "add_filter h s = s\<lparr>trace := trace s @ [Make, Warning msg_no_pitch]\<rparr>"
    using assms by (rule add_filter_unavailable)
  have "pitch_element (add_filter h s) = None"
    using assms by (simp add: a)
  from runs_unavailable [OF this assms(2), of n] show ?thesis
    by (simp add: a)
qed

theorem add_filter_creation_fails_witness:
  "pitch_element (built 10 0 0 None) = None \<and>
   pitch_factory (host_of None EveryCall bare_window) = None \<and>
   trace ((property_changed (host_of None EveryCall bare_window) ^^ 2)
            (add_filter (host_of None EveryCall bare_window) (built 10 0 0 None))) =
     [Make, Warning msg_no_pitch, Handler, Make, Warning msg_no_pitch,
      Handler, Make, Warning msg_no_pitch]"
proof -
  have 1: "pitch_element (built 10 0 0 None) = None"
    by (simp add: built_def)
  have 2: "pitch_factory (host_of None EveryCall bare_window) = None"
    by (simp add: host_of_def)
  have "trace (built 10 0 0 None) = []"
    by (simp add: built_def)
  with add_filter_creation_fails [OF 1 2, of 2, THEN conjunct2, THEN conjunct2] 1 2
  show ?thesis by (simp add: numeral_2_eq_2)
qed

text \<open>
  C4, as stated: after a failed creation no later operation attempts the creation again.
  It fails on the first run of the handler after the failure: the events that this run
  adds to the trace contain a \<open>Make\<close>, followed by a second warning.
\<close>

theorem creation_retried_counterexample:
  "trace (add_filter (host_of None OnChange bare_window) (built 0 0 0 None)) =
     [Make, Warning msg_no_pitch] \<and>
   trace (property_changed (host_of None OnChange bare_window)
            (add_filter (host_of None OnChange bare_window) (built 0 0 0 None))) =
     [Make, Warning msg_no_pitch, Handler, Make, Warning msg_no_pitch] \<and>
   Make \<in> set (drop (length (trace (add_filter (host_of None OnChange bare_window)
                                      (built 0 0 0 None))))
                  (trace (property_changed (host_of None OnChange bare_window)
                     (add_filter (host_of None OnChange bare_window) (built 0 0 0 None)))))"
  by (simp add: property_changed_def add_filter_def log_events_def built_def host_of_def)

text \<open>
  C4, amended. A failed creation is not retried inside \<^verbatim>\<open>add_filter\<close>, and its
  only effect is one warning: the handle stays empty and nothing is inserted. But the
  handler calls \<^verbatim>\<open>add_filter\<close> on every run, so the first run after the failure
  attempts the creation again: with a host \<open>h'\<close> that still has no pitch element it
  fails and warns once more, and with a host that now supplies \<open>e\<close> it creates and
  inserts \<open>e\<close> and writes the three properties.
\<close>

theorem creation_retried_by_handler:
  assumes "pitch_element s = None" and "pitch_factory h = None"
  shows "add_filter h s = s\<lparr>trace := trace s @ [Make, Warning msg_no_pitch]\<rparr> \<and>
         (pitch_factory h' = None \<longrightarrow>
            property_changed h' (add_filter h s) =
              s\<lparr>trace := trace s @ [Make, Warning msg_no_pitch]
                           @ [Handler, Make, Warning msg_no_pitch]\<rparr>) \<and>
         (pitch_factory h' = Some e \<longrightarrow>
            property_changed h' (add_filter h s) =
              s\<lparr>pitch_element := Some (derived s),
                trace := trace s @ [Make, Warning msg_no_pitch]
                           @ [Handler, Make, AddFilter e]
                           @ writes (adj_value (tempo_adj s)) (adj_value (pitch_adj s))
                               (adj_value (speed_adj s))\<rparr>)"
  using assms
  by (simp add: add_filter_unavailable property_changed_unavailable property_changed_created
      derived_def)

theorem creation_retried_by_handler_witness:
  "pitch_element (built 0 0 0 None) = None \<and>
   pitch_factory (host_of None OnChange bare_window) = None \<and>
   trace (property_changed (host_of (Some neutral) OnChange bare_window)
            (add_filter (host_of None OnChange bare_window) (built 0 0 0 None))) =
     [Make, Warning msg_no_pitch, Handler, Make, AddFilter neutral,
      SetProp Tempo 1, SetProp Pitch 1, SetProp Rate 1]"
proof -
  have 1: "pitch_element (built 0 0 0 None) = None"
    by (simp add: built_def)
  have 2: "pitch_factory (host_of None OnChange bare_window) = None"
    by (simp add: host_of_def)
  have 3: "pitch_factory (host_of (Some neutral) OnChange bare_window) = Some neutral"
    by (simp add: host_of_def)
  have 4: "trace (built 0 0 0 None) = []"
    "adj_value (tempo_adj (built 0 0 0 None)) = 0"
    "adj_value (pitch_adj (built 0 0 0 None)) = 0"
    "adj_value (speed_adj (built 0 0 0 None)) = 0"
    by (simp_all add: built_def create_adj_def)
  from creation_retried_by_handler
    [OF 1 2, of "host_of (Some neutral) OnChange bare_window" neutral,
      THEN conjunct2, THEN conjunct2] 3
  have "property_changed (host_of (Some neutral) OnChange bare_window)
          (add_filter (host_of None OnChange bare_window) (built 0 0 0 None)) =
        (built 0 0 0 None)\<lparr>pitch_element := Some (derived (built 0 0 0 None)),
           trace := trace (built 0 0 0 None) @ [Make, Warning msg_no_pitch]
                      @ [Handler, Make, AddFilter neutral]
                      @ writes (adj_value (tempo_adj (built 0 0 0 None)))
                          (adj_value (pitch_adj (built 0 0 0 None)))
                          (adj_value (speed_adj (built 0 0 0 None)))\<rparr>"
    by blast
  then show ?thesis
    using 1 2 by (simp add: 4 writes_def)
qed

section \<open>Reset\<close>

lemma set_value_zero: "zero_in_bounds a \<Longrightarrow> set_value a 0 = a\<lparr>adj_value := 0\<rparr>"
  by (simp add: set_value_def zero_in_bounds_def)

lemma create_toolbox_bounds:
  "zero_in_bounds (tempo_adj (fst (create_toolbox s)))"
  "zero_in_bounds (pitch_adj (fst (create_toolbox s)))"
  "zero_in_bounds (speed_adj (fst (create_toolbox s)))"
  by (simp_all add: create_toolbox_def create_adj_def zero_in_bounds_def)

lemma set_value_bounds: "zero_in_bounds (set_value a v) = zero_in_bounds a"
  by (simp add: set_value_def zero_in_bounds_def)

lemma tempo_zero:
  assumes "zero_in_bounds (tempo_adj s)" and "pitch_element s = Some e"
  shows "tempo_set_value h 0 s =
     (if emits (emission h) (adj_value (tempo_adj s)) 0
      then s\<lparr>tempo_adj := (tempo_adj s)\<lparr>adj_value := 0\<rparr>,
             pitch_element := Some (derived (s\<lparr>tempo_adj := (tempo_adj s)\<lparr>adj_value := 0\<rparr>\<rparr>)),
             trace := trace s @ handler_run 0 (adj_value (pitch_adj s)) (adj_value (speed_adj s))\<rparr>
      else s\<lparr>tempo_adj := (tempo_adj s)\<lparr>adj_value := 0\<rparr>\<rparr>)"
  using assms by (simp add: tempo_set_value_def set_value_zero property_changed_present)

lemma pitch_zero:
  assumes "zero_in_bounds (pitch_adj s)" and "pitch_element s = Some e"
  shows "pitch_set_value h 0 s =
     (if emits (emission h) (adj_value (pitch_adj s)) 0
      then s\<lparr>pitch_adj := (pitch_adj s)\<lparr>adj_value := 0\<rparr>,
             pitch_element := Some (derived (s\<lparr>pitch_adj := (pitch_adj s)\<lparr>adj_value := 0\<rparr>\<rparr>)),
             trace := trace s @ handler_run (adj_value (tempo_adj s)) 0 (adj_value (speed_adj s))\<rparr>
      else s\<lparr>pitch_adj := (pitch_adj s)\<lparr>adj_value := 0\<rparr>\<rparr>)"
  using assms by (simp add: pitch_set_value_def set_value_zero property_changed_present)

lemma speed_zero:
  assumes "zero_in_bounds (speed_adj s)" and "pitch_element s = Some e"
  shows "speed_set_value h 0 s =
     (if emits (emission h) (adj_value (speed_adj s)) 0
      then s\<lparr>speed_adj := (speed_adj s)\<lparr>adj_value := 0\<rparr>,
             pitch_element := Some (derived (s\<lparr>speed_adj := (speed_adj s)\<lparr>adj_value := 0\<rparr>\<rparr>)),
             trace := trace s @ handler_run (adj_value (tempo_adj s)) (adj_value (pitch_adj s)) 0\<rparr>
      else s\<lparr>speed_adj := (speed_adj s)\<lparr>adj_value := 0\<rparr>\<rparr>)"
  using assms by (simp add: speed_set_value_def set_value_zero property_changed_present)

lemma reset_trace:
  assumes "zero_in_bounds (tempo_adj s)" and "zero_in_bounds (pitch_adj s)"
    and "zero_in_bounds (speed_adj s)" and "pitch_element s = Some e"
  shows "trace (reset h s) =
           trace s
           @ (if emits (emission h) (adj_value (tempo_adj s)) 0
              then handler_run 0 (adj_value (pitch_adj s)) (adj_value (speed_adj s)) else [])
           @ (if emits (emission h) (adj_value (pitch_adj s)) 0
              then handler_run 0 0 (adj_value (speed_adj s)) else [])
           @ (if emits (emission h) (adj_value (speed_adj s)) 0
              then handler_run 0 0 0 else [])"
  using assms by (simp add: reset_def tempo_zero pitch_zero speed_zero)

text \<open>
  Being in sync survives every change of an adjustment, under either emission rule:
  a run of the handler establishes it, and a call that emits nothing has stored the
  value that was there.
\<close>

lemma silent_set_value:
  "\<not> emits r (adj_value a) (adj_value (set_value a v)) \<Longrightarrow> set_value a v = a"
  by (cases r) (simp_all add: set_value_def)

lemma in_sync_tempo_set_value: "in_sync s \<Longrightarrow> in_sync (tempo_set_value h v s)"
  by (simp add: tempo_set_value_def Let_def in_sync_property_changed silent_set_value)

lemma in_sync_pitch_set_value: "in_sync s \<Longrightarrow> in_sync (pitch_set_value h v s)"
  by (simp add: pitch_set_value_def Let_def in_sync_property_changed silent_set_value)

lemma in_sync_speed_set_value: "in_sync s \<Longrightarrow> in_sync (speed_set_value h v s)"
  by (simp add: speed_set_value_def Let_def in_sync_property_changed silent_set_value)

lemma in_sync_reset: "in_sync s \<Longrightarrow> in_sync (reset h s)"
  by (simp add: reset_def in_sync_tempo_set_value in_sync_pitch_set_value
      in_sync_speed_set_value)







lemma reset_emits_iff:
  "reset_emits h s =
     (emission h = EveryCall \<or> adj_value (tempo_adj s) \<noteq> 0 \<or>
      adj_value (pitch_adj s) \<noteq> 0 \<or> adj_value (speed_adj s) \<noteq> 0)"
  by (cases "emission h") (simp_all add: reset_emits_def)








text \<open>
  C3, as stated: from every starting state \<^verbatim>\<open>reset\<close> runs the handler exactly three
  times and every run writes the neutral values. From tempo 50, pitch 12, speed 100
  with a filter present, all three calls change a value, so the handler runs three
  times under both emission rules; but its first run writes pitch 2.0 and rate 2.0 and
  its second run writes rate 2.0, from the adjustments that have not been reset yet.
\<close>

theorem reset_runs_counterexample:
  "\<not> (count_list (trace (reset (host_of None EveryCall bare_window)
                            (built 50 12 100 (Some neutral)))) Handler = 3 \<and>
       list_all neutral_write (trace (reset (host_of None EveryCall bare_window)
                                        (built 50 12 100 (Some neutral))))) \<and>
   \<not> (count_list (trace (reset (host_of None OnChange bare_window)
                            (built 50 12 100 (Some neutral)))) Handler = 3 \<and>
       list_all neutral_write (trace (reset (host_of None OnChange bare_window)
                                        (built 50 12 100 (Some neutral))))) \<and>
   trace (reset (host_of None OnChange bare_window) (built 50 12 100 (Some neutral))) =
     [Handler, SetProp Tempo 1, SetProp Pitch 2, SetProp Rate 2,
      Handler, SetProp Tempo 1, SetProp Pitch 1, SetProp Rate 2,
      Handler, SetProp Tempo 1, SetProp Pitch 1, SetProp Rate 1]"
proof -
  let ?s = "built 50 12 100 (Some neutral)"
  have z: "zero_in_bounds (tempo_adj ?s)" "zero_in_bounds (pitch_adj ?s)"
    "zero_in_bounds (speed_adj ?s)"
    by (simp_all add: built_def create_adj_def zero_in_bounds_def)
  have p: "pitch_element ?s = Some neutral"
    by (simp add: built_def)
  have v: "adj_value (tempo_adj ?s) = 50" "adj_value (pitch_adj ?s) = 12"
    "adj_value (speed_adj ?s) = 100" "trace ?s = []"
    by (simp_all add: built_def create_adj_def)
  have e: "trace (reset (host_of None EveryCall bare_window) ?s) =
      [Handler, SetProp Tempo 1, SetProp Pitch 2, SetProp Rate 2,
       Handler, SetProp Tempo 1, SetProp Pitch 1, SetProp Rate 2,
       Handler, SetProp Tempo 1, SetProp Pitch 1, SetProp Rate 1]"
    by (simp add: reset_trace [OF z p] v host_of_def handler_run_def writes_def)
  have c: "trace (reset (host_of None OnChange bare_window) ?s) =
      [Handler, SetProp Tempo 1, SetProp Pitch 2, SetProp Rate 2,
       Handler, SetProp Tempo 1, SetProp Pitch 1, SetProp Rate 2,
       Handler, SetProp Tempo 1, SetProp Pitch 1, SetProp Rate 1]"
    by (simp add: reset_trace [OF z p] v host_of_def handler_run_def writes_def)
  show ?thesis
    by (simp add: e c)
qed

text \<open>
  C3, amended. From every starting state with a filter present, \<^verbatim>\<open>reset\<close> sets the
  tempo, the pitch and the speed adjustment to 0 in this order, and the handler runs
  once for each of the three calls that emits the signal: exactly three times when
  every call emits. Each run writes the values derived from the adjustments as they
  are at that moment: the run for the tempo adjustment writes tempo 1.0 with the pitch
  and the rate of the pitch and speed values not yet reset, the run for the pitch
  adjustment writes tempo 1.0 and pitch 1.0 with the rate of the speed value not yet
  reset, and the run for the speed adjustment writes 1.0, 1.0, 1.0.
\<close>

theorem reset_handler_runs:
  assumes "zero_in_bounds (tempo_adj s)" and "zero_in_bounds (pitch_adj s)"
    and "zero_in_bounds (speed_adj s)" and "pitch_element s = Some e"
  shows "trace (reset h s) =
           trace s
           @ (if emits (emission h) (adj_value (tempo_adj s)) 0
              then handler_run 0 (adj_value (pitch_adj s)) (adj_value (speed_adj s)) else [])
           @ (if emits (emission h) (adj_value (pitch_adj s)) 0
              then handler_run 0 0 (adj_value (speed_adj s)) else [])
           @ (if emits (emission h) (adj_value (speed_adj s)) 0
              then handler_run 0 0 0 else []) \<and>
         (emission h = EveryCall \<longrightarrow>
            trace (reset h s) =
              trace s
              @ handler_run 0 (adj_value (pitch_adj s)) (adj_value (speed_adj s))
              @ handler_run 0 0 (adj_value (speed_adj s))
              @ handler_run 0 0 0 \<and>
            count_list (trace (reset h s)) Handler = count_list (trace s) Handler + 3) \<and>
         handler_run 0 0 0 = [Handler, SetProp Tempo 1, SetProp Pitch 1, SetProp Rate 1]"
proof -
  note t = reset_trace [OF assms, of h]
  have n: "handler_run 0 0 0 = [Handler, SetProp Tempo 1, SetProp Pitch 1, SetProp Rate 1]"
    by (simp add: handler_run_def writes_def)
  have c: "count_list (handler_run a b c) Handler = 1" for a b c
    by (simp add: handler_run_def writes_def)
  have "emission h = EveryCall \<longrightarrow>
      count_list (trace (reset h s)) Handler = count_list (trace s) Handler + 3"
    by (simp add: t c)
  with t n show ?thesis by simp
qed

theorem reset_handler_runs_witness:
  "zero_in_bounds (tempo_adj (built 0 0 100 (Some neutral))) \<and>
   zero_in_bounds (pitch_adj (built 0 0 100 (Some neutral))) \<and>
   zero_in_bounds (speed_adj (built 0 0 100 (Some neutral))) \<and>
   pitch_element (built 0 0 100 (Some neutral)) = Some neutral \<and>
   trace (reset (host_of None EveryCall bare_window) (built 0 0 100 (Some neutral))) =
     [Handler, SetProp Tempo 1, SetProp Pitch 1, SetProp Rate 2,
      Handler, SetProp Tempo 1, SetProp Pitch 1, SetProp Rate 2,
      Handler, SetProp Tempo 1, SetProp Pitch 1, SetProp Rate 1] \<and>
   trace (reset (host_of None OnChange bare_window) (built 0 0 100 (Some neutral))) =
     [Handler, SetProp Tempo 1, SetProp Pitch 1, SetProp Rate 1]"
proof -
  let ?s = "built 0 0 100 (Some neutral)"
  have z: "zero_in_bounds (tempo_adj ?s)" "zero_in_bounds (pitch_adj ?s)"
    "zero_in_bounds (speed_adj ?s)"
    by (simp_all add: built_def create_adj_def zero_in_bounds_def)
  have p: "pitch_element ?s = Some neutral"
    by (simp add: built_def)
  have v: "adj_value (tempo_adj ?s) = 0" "adj_value (pitch_adj ?s) = 0"
    "adj_value (speed_adj ?s) = 100" "trace ?s = []"
    by (simp_all add: built_def create_adj_def)
  from reset_handler_runs [OF z p, of "host_of None EveryCall bare_window", THEN conjunct1]
  have e: "trace (reset (host_of None EveryCall bare_window) ?s) =
     [Handler, SetProp Tempo 1, SetProp Pitch 1, SetProp Rate 2,
      Handler, SetProp Tempo 1, SetProp Pitch 1, SetProp Rate 2,
      Handler, SetProp Tempo 1, SetProp Pitch 1, SetProp Rate 1]"
    by (simp add: v host_of_def handler_run_def writes_def)
  from reset_handler_runs [OF z p, of "host_of None OnChange bare_window", THEN conjunct1]
  have c: "trace (reset (host_of None OnChange bare_window) ?s) =
     [Handler, SetProp Tempo 1, SetProp Pitch 1, SetProp Rate 1]"
    by (simp add: v host_of_def handler_run_def writes_def)
  from z p e c show ?thesis by simp
qed

section \<open>Activation and deactivation\<close>

lemma get_toolbar_bare: "get_toolbar (host_of f r bare_window) = Inr None"
  by (simp add: get_toolbar_def host_of_def bare_window_def)

lemma get_toolbar_sample:
  "get_toolbar (host_of f r sample_window) =
     Inr (Some (Node 4 True True (Some ''main-toolbar'') True []))"
  by (simp add: get_toolbar_def host_of_def sample_window_def)

text \<open>
  C8. \<^verbatim>\<open>do_activate\<close> never ends with an exception, whatever the host answers.
  When the toolbar is not found, the toolbox handle stays \<open>None\<close>, the adjustments
  are not created, and after the filter has been attached (or its warning logged) the
  only further effect is the warning that the toolbar could not be found. An exception
  from reading the window or from the toolbar's \<^verbatim>\<open>insert\<close> ends as a warning that
  carries its message.
\<close>

theorem do_activate_guarded:
  "snd (do_activate h s) = None \<and>
   (get_toolbar h = Inr None \<longrightarrow>
      toolbox (fst (do_activate h s)) = None \<and>
      tempo_adj (fst (do_activate h s)) = tempo_adj s \<and>
      pitch_adj (fst (do_activate h s)) = pitch_adj s \<and>
      speed_adj (fst (do_activate h s)) = speed_adj s \<and>
      trace (fst (do_activate h s)) =
        trace s @ [GstInit, Make]
          @ (case pitch_factory h of Some e \<Rightarrow> [AddFilter e] | None \<Rightarrow> [Warning msg_no_pitch])
          @ [Warning ''RBTempoPlugin: Could not find Rhythmbox main toolbar.'']) \<and>
   (window h = Inl x \<longrightarrow>
      last (trace (fst (do_activate h s))) =
        Warning (''RBTempoPlugin: Failed to activate UI: '' @ str x)) \<and>
   (get_toolbar h = Inr (Some bar) \<and> insert_fault h = Some x \<longrightarrow>
      last (trace (fst (do_activate h s))) =
        Warning (''RBTempoPlugin: Failed to activate UI: '' @ str x))"
  by (auto simp add: do_activate_def activate_ui_def get_toolbar_def add_filter_def log_events_def
      warning_def create_toolbox_def Let_def
      split: sum.splits option.splits prod.splits)

theorem do_activate_guarded_witness:
  "get_toolbar (host_of None OnChange bare_window) = Inr None \<and>
   do_activate (host_of None OnChange bare_window) (built 5 5 5 (Some neutral)) =
     ((built 5 5 5 None)
        \<lparr>toolbox := None,
         trace := [GstInit, Make, Warning msg_no_pitch,
                   Warning ''RBTempoPlugin: Could not find Rhythmbox main toolbar.'']\<rparr>,
      None) \<and>
   insert_fault ((host_of None OnChange sample_window)\<lparr>insert_fault := Some (Exception ''full'')\<rparr>)
     = Some (Exception ''full'') \<and>
   last (trace (fst (do_activate
       ((host_of None OnChange sample_window)\<lparr>insert_fault := Some (Exception ''full'')\<rparr>)
       (built 5 5 5 None)))) =
     Warning ''RBTempoPlugin: Failed to activate UI: full''"
proof -
  let ?h = "host_of None OnChange bare_window"
  let ?g = "(host_of None OnChange sample_window)\<lparr>insert_fault := Some (Exception ''full'')\<rparr>"
  have 1: "get_toolbar ?h = Inr None"
    by (rule get_toolbar_bare)
  have 2: "get_toolbar ?g = Inr (Some (Node 4 True True (Some ''main-toolbar'') True []))"
    by (simp add: get_toolbar_def host_of_def sample_window_def)
  have 3: "insert_fault ?g = Some (Exception ''full'')"
    by (simp add: host_of_def)
  have 4: "pitch_factory ?h = None"
    by (simp add: host_of_def)
  note a = do_activate_guarded [of ?h "built 5 5 5 (Some neutral)"]
  note b = do_activate_guarded
    [where h = ?g and s = "built 5 5 5 None" and x = "Exception ''full''"
      and bar = "Node 4 True True (Some ''main-toolbar'') True []"]
  have "do_activate ?h (built 5 5 5 (Some neutral)) =
     ((built 5 5 5 None)
        \<lparr>toolbox := None,
         trace := [GstInit, Make, Warning msg_no_pitch,
                   Warning ''RBTempoPlugin: Could not find Rhythmbox main toolbar.'']\<rparr>,
      None)"
    using a 1 4
    by (simp add: do_activate_def activate_ui_def add_filter_def log_events_def warning_def built_def)
  with b 1 2 3 show ?thesis by simp
qed

text \<open>
  C9. After \<^verbatim>\<open>do_deactivate\<close> the toolbox handle and the filter handle are both
  \<open>None\<close> and no exception leaves it, for every state and every answer of the host:
  also when reading the window, asking for the toolbox's parent or the toolbar's
  \<^verbatim>\<open>remove\<close> raises.
\<close>

theorem do_deactivate_clears:
  "toolbox (fst (do_deactivate h s)) = None \<and>
   pitch_element (fst (do_deactivate h s)) = None \<and>
   snd (do_deactivate h s) = None"
  by (simp add: do_deactivate_def Let_def)

theorem do_deactivate_clears_witness:
  "do_deactivate
     ((host_of None OnChange sample_window)\<lparr>remove_fault := Some (Exception ''gone'')\<rparr>)
     (built 5 5 5 (Some neutral)) =
   ((built 5 5 5 None)
      \<lparr>toolbox := None,
       trace := [RemoveFilter neutral,
                 Warning ''RBTempoPlugin: Failed to deactivate UI: gone'']\<rparr>, None)"
  using do_deactivate_clears
    [of "(host_of None OnChange sample_window)\<lparr>remove_fault := Some (Exception ''gone'')\<rparr>"
       "built 5 5 5 (Some neutral)"]
  by (simp add: do_deactivate_def deactivate_ui_def remove_filter_def get_toolbar_def
      host_of_def sample_window_def built_def log_events_def warning_def)

text \<open>
  After an activation that found the toolbar, the filter (if the framework supplied
  one, with its properties at their default 1.0) is in sync with the new adjustments.
\<close>

lemma do_activate_in_sync:
  assumes "pitch_factory h = None \<or> pitch_factory h = Some neutral"
    and "get_toolbar h = Inr (Some bar)"
  shows "in_sync (fst (do_activate h s))"
  using assms
  by (auto simp add: do_activate_def activate_ui_def add_filter_def log_events_def warning_def
      create_toolbox_def create_adj_def Let_def in_sync_def derived_def neutral_def
      split: option.splits)

section \<open>The search for the toolbar\<close>

lemma find_append_first:
  "List.find P (xs @ ys) = (case List.find P xs of Some x \<Rightarrow> Some x | None \<Rightarrow> List.find P ys)"
  by (induction xs) simp_all

lemma find_is_first_in_preorder:
  "find_widget_by_name w name = List.find (bears_name name) (preorder w)"
  "find_in_children ws name = List.find (bears_name name) (preorder_all ws)"
proof (induction w name and ws name rule: find_widget_by_name_find_in_children.induct)
  case (1 i w b n c kids name)
  then show ?case by (simp add: bears_name_def)
next
  case (2 name)
  show ?case by simp
next
  case (3 child rest name)
  then show ?case by (simp add: find_append_first split: option.splits)
qed

text \<open>
  C10. For every tree and every name, \<^verbatim>\<open>find_widget_by_name\<close> returns the first
  node bearing the name in the depth-first listing that puts a node before its
  children and the children in their order. It returns \<open>None\<close> when the root is not
  a widget, and it returns \<open>None\<close> exactly when no listed node bears the name.
\<close>

theorem find_widget_by_name_first_match:
  "find_widget_by_name w name = List.find (bears_name name) (preorder w) \<and>
   (\<not> is_widget w \<longrightarrow> find_widget_by_name w name = None) \<and>
   ((find_widget_by_name w name = None) = (\<forall>x \<in> set (preorder w). \<not> bears_name name x))"
proof -
  have "\<not> is_widget w \<longrightarrow> find_widget_by_name w name = None"
    by (cases w) simp
  moreover have "(find_widget_by_name w name = None) =
      (\<forall>x \<in> set (preorder w). \<not> bears_name name x)"
    by (auto simp add: find_is_first_in_preorder find_None_iff)
  ultimately show ?thesis
    using find_is_first_in_preorder(1) [of w name] by blast
qed

theorem find_widget_by_name_first_match_witness:
  "find_widget_by_name sample_window ''main-toolbar'' =
     Some (Node 4 True True (Some ''main-toolbar'') True []) \<and>
   map ident (preorder sample_window) = [0, 2, 3, 4, 5] \<and>
   find_widget_by_name sample_window ''search-box'' = None \<and>
   \<not> is_widget (Node 1 False True (Some ''main-toolbar'') True []) \<and>
   find_widget_by_name (Node 1 False True (Some ''main-toolbar'') True []) ''main-toolbar'' = None"
  using find_widget_by_name_first_match [of sample_window "''main-toolbar''"]
    find_widget_by_name_first_match [of sample_window "''search-box''"]
    find_widget_by_name_first_match
      [of "Node 1 False True (Some ''main-toolbar'') True []" "''main-toolbar''"]
  by (simp add: sample_window_def bears_name_def)

end
